theory Spec2Isabelle
  imports Main
begin

section \<open>The hosted services as the components see them\<close>

text \<open>
  The two components (\<^verbatim>\<open>src/components/Auth.tsx\<close> and the profile view in
  \<^verbatim>\<open>src/unnamed/part_000\<close>) only orchestrate calls to the identity service
  (\<^verbatim>\<open>firebase/auth\<close>) and to the document store (\<^verbatim>\<open>firebase/firestore\<close>).
  The services are outside the repository, so their answers are inputs of the model:
  an \<open>env\<close> says, for one run of a handler, whether each call is rejected (and with
  which error) and what the identity service returns. What the handlers can observe
  afterwards is state: the active session (\<^verbatim>\<open>auth.currentUser\<close>), the collection
  \<^verbatim>\<open>"users"\<close> of the document store, and the list of calls issued so far.
\<close>

text \<open>A rejected promise: the handlers only ever look at \<^verbatim>\<open>err.code\<close>.\<close>

datatype error = FirebaseError (code: string)

text \<open>The user object handed out by the identity service.\<close>

record user =
  uid :: string
  userEmail :: string
  displayName :: "string option"
  emailVerified :: bool

text \<open>
  A stored document maps field names to values; every value this application writes is
  a string. The payload of a write is the object literal of the source, field by field.
\<close>

type_synonym document = "string \<rightharpoonup> string"

type_synonym fields = "(string \<times> string) list"

datatype call =
    SignInWithEmailAndPassword string string
  | CreateUserWithEmailAndPassword string string
  | UpdateProfile string string
  | SendEmailVerification string
  | SignOut
  | SendPasswordResetEmail string
  | DeleteUser string
  | GetDoc string
  | SetDoc string fields
  | UpdateDoc string fields
  | DeleteDoc string

record backend =
  currentUser :: "user option"
  users :: "string \<rightharpoonup> document"
  calls :: "call list"

record env =
  now :: string
  confirmAnswer :: bool
  signInResult :: "error + user"
  createUserResult :: "error + user"
  updateProfileFault :: "error option"
  sendEmailVerificationFault :: "error option"
  signOutFault :: "error option"
  sendPasswordResetEmailFault :: "error option"
  deleteUserFault :: "error option"
  getDocFault :: "error option"
  setDocFault :: "error option"
  updateDocFault :: "error option"
  deleteDocFault :: "error option"

definition issue :: "call \<Rightarrow> backend \<Rightarrow> backend" where
  "issue c b = b\<lparr>calls := calls b @ [c]\<rparr>"

subsection \<open>Identity service\<close>

text \<open>
  A call that returns a value yields \<open>Inl err\<close> when its promise rejects and \<open>Inr v\<close>
  otherwise; a call that returns nothing yields \<open>Some err\<close> or \<open>None\<close>. A successful
  sign-in or account creation makes the returned user the active session.
\<close>

definition signInWithEmailAndPassword ::
  "env \<Rightarrow> string \<Rightarrow> string \<Rightarrow> backend \<Rightarrow> (error + user) \<times> backend" where
  "signInWithEmailAndPassword e em pw b =
     (case signInResult e of
        Inl err \<Rightarrow> (Inl err, issue (SignInWithEmailAndPassword em pw) b)
      | Inr u \<Rightarrow> (Inr u, (issue (SignInWithEmailAndPassword em pw) b)\<lparr>currentUser := Some u\<rparr>))"

definition createUserWithEmailAndPassword ::
  "env \<Rightarrow> string \<Rightarrow> string \<Rightarrow> backend \<Rightarrow> (error + user) \<times> backend" where
  "createUserWithEmailAndPassword e em pw b =
     (case createUserResult e of
        Inl err \<Rightarrow> (Inl err, issue (CreateUserWithEmailAndPassword em pw) b)
      | Inr u \<Rightarrow> (Inr u, (issue (CreateUserWithEmailAndPassword em pw) b)\<lparr>currentUser := Some u\<rparr>))"

definition updateProfile :: "env \<Rightarrow> user \<Rightarrow> string \<Rightarrow> backend \<Rightarrow> error option \<times> backend" where
  "updateProfile e u n b =
     (case updateProfileFault e of
        Some err \<Rightarrow> (Some err, issue (UpdateProfile (uid u) n) b)
      | None \<Rightarrow>
          (None, (issue (UpdateProfile (uid u) n) b)
                   \<lparr>currentUser :=
                      map_option (\<lambda>c. if uid c = uid u then c\<lparr>displayName := Some n\<rparr> else c)
                        (currentUser b)\<rparr>))"

definition sendEmailVerification :: "env \<Rightarrow> user \<Rightarrow> backend \<Rightarrow> error option \<times> backend" where
  "sendEmailVerification e u b =
     (sendEmailVerificationFault e, issue (SendEmailVerification (uid u)) b)"

definition signOut :: "env \<Rightarrow> backend \<Rightarrow> error option \<times> backend" where
  "signOut e b =
     (case signOutFault e of
        Some err \<Rightarrow> (Some err, issue SignOut b)
      | None \<Rightarrow> (None, (issue SignOut b)\<lparr>currentUser := None\<rparr>))"

definition sendPasswordResetEmail :: "env \<Rightarrow> string \<Rightarrow> backend \<Rightarrow> error option \<times> backend" where
  "sendPasswordResetEmail e em b =
     (sendPasswordResetEmailFault e, issue (SendPasswordResetEmail em) b)"

definition deleteUser :: "env \<Rightarrow> user \<Rightarrow> backend \<Rightarrow> error option \<times> backend" where
  "deleteUser e u b =
     (case deleteUserFault e of
        Some err \<Rightarrow> (Some err, issue (DeleteUser (uid u)) b)
      | None \<Rightarrow> (None, (issue (DeleteUser (uid u)) b)\<lparr>currentUser := None\<rparr>))"

subsection \<open>Document store, collection "users"\<close>

text \<open>
  \<open>getDoc\<close> returns the snapshot (\<open>None\<close> when \<^verbatim>\<open>exists()\<close> is false), \<open>setDoc\<close>
  replaces the document, \<open>updateDoc\<close> overwrites the given fields of a document that
  exists and is rejected with \<^verbatim>\<open>not-found\<close> when there is none, \<open>deleteDoc\<close>
  removes the document.
\<close>

definition getDoc :: "env \<Rightarrow> string \<Rightarrow> backend \<Rightarrow> (error + document option) \<times> backend" where
  "getDoc e k b =
     (case getDocFault e of
        Some err \<Rightarrow> (Inl err, issue (GetDoc k) b)
      | None \<Rightarrow> (Inr (users b k), issue (GetDoc k) b))"

definition setDoc :: "env \<Rightarrow> string \<Rightarrow> fields \<Rightarrow> backend \<Rightarrow> error option \<times> backend" where
  "setDoc e k fs b =
     (case setDocFault e of
        Some err \<Rightarrow> (Some err, issue (SetDoc k fs) b)
      | None \<Rightarrow> (None, (issue (SetDoc k fs) b)\<lparr>users := (users b)(k \<mapsto> map_of fs)\<rparr>))"

definition updateDoc :: "env \<Rightarrow> string \<Rightarrow> fields \<Rightarrow> backend \<Rightarrow> error option \<times> backend" where
  "updateDoc e k fs b =
     (case updateDocFault e of
        Some err \<Rightarrow> (Some err, issue (UpdateDoc k fs) b)
      | None \<Rightarrow>
          (case users b k of
             None \<Rightarrow> (Some (FirebaseError ''not-found''), issue (UpdateDoc k fs) b)
           | Some d \<Rightarrow>
               (None, (issue (UpdateDoc k fs) b)\<lparr>users := (users b)(k \<mapsto> d ++ map_of fs)\<rparr>)))"

definition deleteDoc :: "env \<Rightarrow> string \<Rightarrow> backend \<Rightarrow> error option \<times> backend" where
  "deleteDoc e k b =
     (case deleteDocFault e of
        Some err \<Rightarrow> (Some err, issue (DeleteDoc k) b)
      | None \<Rightarrow> (None, (issue (DeleteDoc k) b)\<lparr>users := (users b)(k := None)\<rparr>))"

text \<open>Reading one field of a stored profile document.\<close>

definition docField :: "backend \<Rightarrow> string \<Rightarrow> string \<Rightarrow> string option" where
  "docField b k f = (case users b k of None \<Rightarrow> None | Some d \<Rightarrow> d f)"

text \<open>
  The operator \<^verbatim>\<open>||\<close> on a value that is a string, \<^verbatim>\<open>null\<close> or
  \<^verbatim>\<open>undefined\<close>: the left operand unless it is falsy (missing or empty).
\<close>

definition orElse :: "string option \<Rightarrow> string \<Rightarrow> string" where
  "orElse v d = (case v of None \<Rightarrow> d | Some x \<Rightarrow> if x = [] then d else x)"


section \<open>Authentication flow controller (Auth.tsx)\<close>

text \<open>The \<^verbatim>\<open>useState\<close> cells of the component.\<close>

record auth_state =
  isLogin :: bool
  isForgotPassword :: bool
  resetSuccess :: bool
  email :: string
  password :: string
  confirmPassword :: string
  name :: string
  photoPreview :: "string option"
  photoFileName :: string
  error :: string
  loading :: bool
  verificationPending :: bool

definition initialAuth :: auth_state where
  "initialAuth =
     \<lparr>isLogin = True, isForgotPassword = False, resetSuccess = False,
      email = [], password = [], confirmPassword = [], name = [],
      photoPreview = None, photoFileName = [], error = [], loading = False,
      verificationPending = False\<rparr>"

text \<open>Which of the screens the component renders, in the order of its \<^verbatim>\<open>return\<close>s.\<close>

datatype screen =
  VerificationPendingScreen | ResetLinkSentScreen | ForgotPasswordForm | SignInForm | SignUpForm

definition render :: "auth_state \<Rightarrow> screen" where
  "render s =
     (if verificationPending s then VerificationPendingScreen
      else if isForgotPassword s then
        (if resetSuccess s then ResetLinkSentScreen else ForgotPasswordForm)
      else if isLogin s then SignInForm else SignUpForm)"

subsection \<open>handleResetPassword\<close>

definition resetPasswordCatch :: "error \<Rightarrow> string" where
  "resetPasswordCatch err =
     (if code err = ''auth/user-not-found'' then ''No user found with this email.''
      else if code err = ''auth/invalid-email'' then ''Invalid email address format.''
      else ''Failed to send reset link. Try again later.'')"

definition handleResetPassword :: "env \<Rightarrow> auth_state \<Rightarrow> backend \<Rightarrow> auth_state \<times> backend" where
  "handleResetPassword e s0 b =
     (let s = s0\<lparr>error := [], loading := True\<rparr> in
      if email s = [] then
        (s\<lparr>error := ''Please enter your email address.'', loading := False\<rparr>, b)
      else
        (case sendPasswordResetEmail e (email s) b of
           (None, b1) \<Rightarrow> (s\<lparr>resetSuccess := True, loading := False\<rparr>, b1)
         | (Some err, b1) \<Rightarrow> (s\<lparr>error := resetPasswordCatch err, loading := False\<rparr>, b1)))"

subsection \<open>handleSubmit\<close>

text \<open>
  The body of each inner \<^verbatim>\<open>try\<close>: \<open>Some err\<close> in the first component when an awaited
  call rejected (control passes to the \<^verbatim>\<open>catch\<close>), \<open>None\<close> when the body ran to
  its end. The rejection of the verification resend on the sign-in path is caught on the
  spot and only logged.
\<close>

definition signInTry :: "env \<Rightarrow> auth_state \<Rightarrow> backend \<Rightarrow> error option \<times> auth_state \<times> backend" where
  "signInTry e s b0 =
     (case signInWithEmailAndPassword e (email s) (password s) b0 of
        (Inl err, b1) \<Rightarrow> (Some err, s, b1)
      | (Inr u, b1) \<Rightarrow>
          (case getDoc e (uid u) b1 of
             (Inl err, b2) \<Rightarrow> (Some err, s, b2)
           | (Inr userDoc, b2) \<Rightarrow>
               (case (if userDoc = None then
                        setDoc e (uid u)
                          [(''name'', orElse (displayName u) ''User''),
                           (''email'', userEmail u),
                           (''photoFileName'', []),
                           (''createdAt'', now e)] b2
                      else (None, b2)) of
                  (Some err, b3) \<Rightarrow> (Some err, s, b3)
                | (None, b3) \<Rightarrow>
                    if \<not> emailVerified u then
                      (case sendEmailVerification e u b3 of
                         (emailErr, b4) \<Rightarrow>
                           (case signOut e b4 of
                              (Some err, b5) \<Rightarrow> (Some err, s, b5)
                            | (None, b5) \<Rightarrow> (None, s\<lparr>verificationPending := True\<rparr>, b5)))
                    else (None, s, b3))))"

definition signInCatch :: "error \<Rightarrow> string" where
  "signInCatch err =
     (if code err = ''auth/invalid-credential'' \<or> code err = ''auth/user-not-found''
         \<or> code err = ''auth/wrong-password''
      then ''Password or Email Incorrect''
      else if code err = ''auth/too-many-requests'' then
        ''Too many attempts. Please try again later.''
      else ''Failed to sign in. Please check your connection.'')"

definition signUpTry :: "env \<Rightarrow> auth_state \<Rightarrow> backend \<Rightarrow> error option \<times> auth_state \<times> backend" where
  "signUpTry e s b0 =
     (case createUserWithEmailAndPassword e (email s) (password s) b0 of
        (Inl err, b1) \<Rightarrow> (Some err, s, b1)
      | (Inr u, b1) \<Rightarrow>
          (case (if name s \<noteq> [] then updateProfile e u (name s) b1 else (None, b1)) of
             (Some err, b2) \<Rightarrow> (Some err, s, b2)
           | (None, b2) \<Rightarrow>
               (case setDoc e (uid u)
                       [(''name'', name s),
                        (''email'', email s),
                        (''photoFileName'', orElse (Some (photoFileName s)) []),
                        (''photoBase64'', orElse (photoPreview s) []),
                        (''createdAt'', now e)] b2 of
                  (Some err, b3) \<Rightarrow> (Some err, s, b3)
                | (None, b3) \<Rightarrow>
                    (case sendEmailVerification e u b3 of
                       (Some err, b4) \<Rightarrow> (Some err, s, b4)
                     | (None, b4) \<Rightarrow>
                         (case signOut e b4 of
                            (Some err, b5) \<Rightarrow> (Some err, s, b5)
                          | (None, b5) \<Rightarrow> (None, s\<lparr>verificationPending := True\<rparr>, b5))))))"

definition signUpCatch :: "error \<Rightarrow> string" where
  "signUpCatch err =
     (if code err = ''auth/email-already-in-use'' then ''User already exists. Sign in?''
      else if code err = ''auth/weak-password'' then ''Password should be at least 6 characters.''
      else ''Failed to create account.'')"

text \<open>
  The outer \<^verbatim>\<open>catch\<close> (\<^verbatim>\<open>'An unexpected error occurred.'\<close>) would only run if an
  inner \<^verbatim>\<open>catch\<close> block threw; those blocks log and set the error text, so it has no
  branch here. The \<^verbatim>\<open>finally\<close> block resets the loading flag on every path.
\<close>

definition handleSubmit :: "env \<Rightarrow> auth_state \<Rightarrow> backend \<Rightarrow> auth_state \<times> backend" where
  "handleSubmit e s0 b =
     (let s = s0\<lparr>error := [], loading := True\<rparr> in
      if isLogin s then
        (case signInTry e s b of
           (None, s1, b1) \<Rightarrow> (s1\<lparr>loading := False\<rparr>, b1)
         | (Some err, s1, b1) \<Rightarrow> (s1\<lparr>error := signInCatch err, loading := False\<rparr>, b1))
      else if password s \<noteq> confirmPassword s then
        (s\<lparr>error := ''Passwords do not match'', loading := False\<rparr>, b)
      else
        (case signUpTry e s b of
           (None, s1, b1) \<Rightarrow> (s1\<lparr>loading := False\<rparr>, b1)
         | (Some err, s1, b1) \<Rightarrow> (s1\<lparr>error := signUpCatch err, loading := False\<rparr>, b1)))"


section \<open>Profile management view (ProfileAgent)\<close>

datatype lang = Vi | En

text \<open>
  A pending \<^verbatim>\<open>setTimeout\<close>: the callback and its delay in milliseconds. The only
  callback the view ever schedules is \<^verbatim>\<open>() => setMsg('')\<close>.
\<close>

datatype callback = ClearMsg

record profile_state =
  loadingProfile :: bool
  updating :: bool
  profileData :: "document option"
  editName :: string
  msg :: string
  timers :: "(callback \<times> nat) list"

definition initialProfile :: profile_state where
  "initialProfile =
     \<lparr>loadingProfile = True, updating = False, profileData = None, editName = [], msg = [],
      timers = []\<rparr>"

definition runCallback :: "callback \<Rightarrow> profile_state \<Rightarrow> profile_state" where
  "runCallback c p = (case c of ClearMsg \<Rightarrow> p\<lparr>msg := []\<rparr>)"

text \<open>The oldest pending timer expires: it leaves the queue and its callback runs.\<close>

definition fireTimer :: "profile_state \<Rightarrow> profile_state" where
  "fireTimer p =
     (case timers p of
        [] \<Rightarrow> p
      | (c, d) # ts \<Rightarrow> runCallback c (p\<lparr>timers := ts\<rparr>))"

text \<open>The localized texts; the Vietnamese ones are spelled as their UTF-8 bytes.\<close>

definition msgUpdated :: "lang \<Rightarrow> string" where
  "msgUpdated l =
     (if l = Vi then
        ''C'' @ [CHR 0xE1, CHR 0xBA, CHR 0xAD] @ ''p nh'' @ [CHR 0xE1, CHR 0xBA, CHR 0xAD]
          @ ''t th'' @ [CHR 0xC3, CHR 0xA0] @ ''nh c'' @ [CHR 0xC3, CHR 0xB4] @ ''ng!''
      else ''Profile updated successfully!'')"

definition msgUpdateFailed :: "lang \<Rightarrow> string" where
  "msgUpdateFailed l =
     (if l = Vi then
        ''L'' @ [CHR 0xE1, CHR 0xBB, CHR 0x97] @ ''i c'' @ [CHR 0xE1, CHR 0xBA, CHR 0xAD]
          @ ''p nh'' @ [CHR 0xE1, CHR 0xBA, CHR 0xAD] @ ''t.''
      else ''Update failed.'')"

definition msgDeleteFailed :: "lang \<Rightarrow> string" where
  "msgDeleteFailed l =
     (if l = Vi then
        ''L'' @ [CHR 0xE1, CHR 0xBB, CHR 0x97] @ ''i: C'' @ [CHR 0xE1, CHR 0xBA, CHR 0xA7]
          @ ''n '' @ [CHR 0xC4, CHR 0x91, CHR 0xC4, CHR 0x83] @ ''ng nh''
          @ [CHR 0xE1, CHR 0xBA, CHR 0xAD] @ ''p l'' @ [CHR 0xE1, CHR 0xBA, CHR 0xA1] @ ''i ''
          @ [CHR 0xC4, CHR 0x91, CHR 0xE1, CHR 0xBB, CHR 0x83] @ '' x'' @ [CHR 0xC3, CHR 0xB3]
          @ ''a.''
      else ''Error: Requires recent login.'')"

subsection \<open>fetchProfile\<close>

text \<open>
  Without an active session the function returns before its \<^verbatim>\<open>try\<close>, so not even
  the loading flag changes. A rejected read is logged and nothing else.
\<close>

definition fetchProfile :: "env \<Rightarrow> profile_state \<Rightarrow> backend \<Rightarrow> profile_state \<times> backend" where
  "fetchProfile e p b =
     (case currentUser b of
        None \<Rightarrow> (p, b)
      | Some u \<Rightarrow>
          (case getDoc e (uid u) b of
             (Inr (Some d), b1) \<Rightarrow>
               (p\<lparr>profileData := Some d, editName := orElse (d ''name'') [],
                  loadingProfile := False\<rparr>, b1)
           | (Inr None, b1) \<Rightarrow> (p\<lparr>loadingProfile := False\<rparr>, b1)
           | (Inl err, b1) \<Rightarrow> (p\<lparr>loadingProfile := False\<rparr>, b1)))"

subsection \<open>handleUpdate\<close>

text \<open>
  \<^verbatim>\<open>fetchProfile()\<close> is started without \<^verbatim>\<open>await\<close>; it catches its own errors, and
  it writes other cells than the rest of \<open>handleUpdate\<close> does, so the state once both have
  settled is the one computed here in sequence.
\<close>

definition handleUpdate ::
  "lang \<Rightarrow> env \<Rightarrow> profile_state \<Rightarrow> backend \<Rightarrow> profile_state \<times> backend" where
  "handleUpdate l e p0 b =
     (case currentUser b of
        None \<Rightarrow> (p0, b)
      | Some u \<Rightarrow>
          (let p = p0\<lparr>updating := True\<rparr> in
           case updateDoc e (uid u) [(''name'', editName p)] b of
             (None, b1) \<Rightarrow>
               (case fetchProfile e
                       (p\<lparr>msg := msgUpdated l, timers := timers p @ [(ClearMsg, 3000)]\<rparr>) b1 of
                  (p2, b2) \<Rightarrow> (p2\<lparr>updating := False\<rparr>, b2))
           | (Some err, b1) \<Rightarrow> (p\<lparr>msg := msgUpdateFailed l, updating := False\<rparr>, b1)))"

subsection \<open>handleDeleteAccount\<close>

text \<open>
  \<open>confirmAnswer\<close> is what \<^verbatim>\<open>window.confirm\<close> returns. The second call passes
  \<^verbatim>\<open>auth.currentUser\<close> as it is after the first one, which does not touch the session.
\<close>

definition handleDeleteAccount ::
  "lang \<Rightarrow> env \<Rightarrow> profile_state \<Rightarrow> backend \<Rightarrow> profile_state \<times> backend" where
  "handleDeleteAccount l e p0 b =
     (case currentUser b of
        None \<Rightarrow> (p0, b)
      | Some u \<Rightarrow>
          if confirmAnswer e then
            (let p = p0\<lparr>updating := True\<rparr> in
             case deleteDoc e (uid u) b of
               (Some err, b1) \<Rightarrow> (p\<lparr>msg := msgDeleteFailed l, updating := False\<rparr>, b1)
             | (None, b1) \<Rightarrow>
                 (case deleteUser e u b1 of
                    (Some err, b2) \<Rightarrow> (p\<lparr>msg := msgDeleteFailed l, updating := False\<rparr>, b2)
                  | (None, b2) \<Rightarrow> (p, b2)))
          else (p0, b))"


section \<open>Concrete runs\<close>

text \<open>
  The inputs at which the theorems below are instantiated: two accounts, the forms a user
  would have filled in, an environment in which every call goes through, and a store that
  holds Ann's profile document.
\<close>

definition ann :: user where
  "ann = \<lparr>uid = ''u1'', userEmail = ''a@x.com'', displayName = Some ''Ann'',
           emailVerified = False\<rparr>"

definition bob :: user where
  "bob = \<lparr>uid = ''u2'', userEmail = ''bob@x.com'', displayName = None,
           emailVerified = False\<rparr>"

definition newAccount :: user where
  "newAccount = \<lparr>uid = ''u1'', userEmail = ''a@x.com'', displayName = None,
                  emailVerified = False\<rparr>"

definition allOk :: "user \<Rightarrow> env" where
  "allOk u =
     \<lparr>now = ''2024-05-01T10:00:00.000Z'', confirmAnswer = True,
      signInResult = Inr u, createUserResult = Inr u,
      updateProfileFault = None, sendEmailVerificationFault = None, signOutFault = None,
      sendPasswordResetEmailFault = None, deleteUserFault = None, getDocFault = None,
      setDocFault = None, updateDocFault = None, deleteDocFault = None\<rparr>"

definition unavailable :: error where
  "unavailable = FirebaseError ''unavailable''"

definition noDocuments :: backend where
  "noDocuments = \<lparr>currentUser = None, users = Map.empty, calls = []\<rparr>"

definition annDocument :: fields where
  "annDocument =
     [(''name'', ''Ann''), (''email'', ''a@x.com''), (''photoFileName'', []),
      (''photoBase64'', []), (''createdAt'', ''2024-05-01T10:00:00.000Z'')]"

definition annSignedIn :: backend where
  "annSignedIn =
     \<lparr>currentUser = Some ann, users = [''u1'' \<mapsto> map_of annDocument], calls = []\<rparr>"

definition annSignIn :: auth_state where
  "annSignIn = initialAuth\<lparr>email := ''a@x.com'', password := ''secret1''\<rparr>"

definition bobSignIn :: auth_state where
  "bobSignIn = initialAuth\<lparr>email := ''bob@x.com'', password := ''hunter22''\<rparr>"

definition annSignUp :: auth_state where
  "annSignUp =
     initialAuth\<lparr>isLogin := False, name := ''Ann'', email := ''a@x.com'',
                 password := ''secret1'', confirmPassword := ''secret1''\<rparr>"

definition annForgot :: auth_state where
  "annForgot = initialAuth\<lparr>isForgotPassword := True, email := ''a@x.com''\<rparr>"

definition editingAnne :: profile_state where
  "editingAnne =
     initialProfile\<lparr>loadingProfile := False, profileData := Some (map_of annDocument),
                    editName := ''Anne''\<rparr>"

lemmas example_defs =
  ann_def bob_def newAccount_def allOk_def unavailable_def noDocuments_def annDocument_def
  annSignedIn_def annSignIn_def bobSignIn_def annSignUp_def annForgot_def editingAnne_def
  initialAuth_def initialProfile_def

lemmas service_defs =
  signInWithEmailAndPassword_def createUserWithEmailAndPassword_def updateProfile_def
  sendEmailVerification_def signOut_def sendPasswordResetEmail_def deleteUser_def
  getDoc_def setDoc_def updateDoc_def deleteDoc_def issue_def


section \<open>Sign-up\<close>

text \<open>
  Claim C7. A sign-up whose password and confirmation differ stays local: the backend is
  returned as it was (no call to the identity service or to the document store is issued,
  nothing is stored, no session starts), the inline error \<^verbatim>\<open>Passwords do not match\<close>
  is set, the loading flag is false again, and no other cell of the form changes.
\<close>

theorem signUp_password_mismatch_is_local:
  assumes "\<not> isLogin s" and "password s \<noteq> confirmPassword s"
  shows "handleSubmit e s b = (s\<lparr>error := ''Passwords do not match'', loading := False\<rparr>, b)"
  using assms by (simp add: handleSubmit_def)

theorem signUp_password_mismatch_is_local_witness:
  "\<not> isLogin (annSignUp\<lparr>confirmPassword := ''secret2''\<rparr>) \<and>
   password (annSignUp\<lparr>confirmPassword := ''secret2''\<rparr>)
     \<noteq> confirmPassword (annSignUp\<lparr>confirmPassword := ''secret2''\<rparr>) \<and>
   handleSubmit (allOk newAccount) (annSignUp\<lparr>confirmPassword := ''secret2''\<rparr>) noDocuments =
     (annSignUp\<lparr>confirmPassword := ''secret2'', error := ''Passwords do not match'',
                loading := False\<rparr>, noDocuments) \<and>
   calls noDocuments = []"
proof -
  have h1: "\<not> isLogin (annSignUp\<lparr>confirmPassword := ''secret2''\<rparr>)"
    by (simp add: annSignUp_def initialAuth_def)
  have h2: "password (annSignUp\<lparr>confirmPassword := ''secret2''\<rparr>)
              \<noteq> confirmPassword (annSignUp\<lparr>confirmPassword := ''secret2''\<rparr>)"
    by (simp add: annSignUp_def initialAuth_def)
  show ?thesis
    using h1 h2 signUp_password_mismatch_is_local [OF h1 h2, of "allOk newAccount" noDocuments]
    by (simp add: noDocuments_def)
qed

text \<open>
  Claim C3. A sign-up with matching passwords in which every backend call succeeds issues,
  in this order: account creation, the display-name update (only when a name was typed),
  the write of the profile document with the fields \<^verbatim>\<open>name\<close>, \<^verbatim>\<open>email\<close>,
  \<^verbatim>\<open>photoFileName\<close>, \<^verbatim>\<open>photoBase64\<close> (empty strings when no photo was chosen)
  and \<^verbatim>\<open>createdAt\<close>, the verification email, and the sign-out. The document is then
  stored under the account id, the verification-pending screen is shown and no session
  is active.
\<close>

theorem signUp_success_sequence:
  assumes "\<not> isLogin s" and "password s = confirmPassword s"
    and "createUserResult e = Inr u"
    and "updateProfileFault e = None" and "setDocFault e = None"
    and "sendEmailVerificationFault e = None" and "signOutFault e = None"
  shows
  "calls (snd (handleSubmit e s b)) =
     calls b @ [CreateUserWithEmailAndPassword (email s) (password s)]
       @ (if name s \<noteq> [] then [UpdateProfile (uid u) (name s)] else [])
       @ [SetDoc (uid u)
            [(''name'', name s), (''email'', email s), (''photoFileName'', photoFileName s),
             (''photoBase64'', case photoPreview s of None \<Rightarrow> [] | Some x \<Rightarrow> x),
             (''createdAt'', now e)],
          SendEmailVerification (uid u), SignOut] \<and>
   users (snd (handleSubmit e s b)) (uid u) =
     Some (map_of
       [(''name'', name s), (''email'', email s), (''photoFileName'', photoFileName s),
        (''photoBase64'', case photoPreview s of None \<Rightarrow> [] | Some x \<Rightarrow> x),
        (''createdAt'', now e)]) \<and>
   fst (handleSubmit e s b) = s\<lparr>error := [], loading := False, verificationPending := True\<rparr> \<and>
   render (fst (handleSubmit e s b)) = VerificationPendingScreen \<and>
   currentUser (snd (handleSubmit e s b)) = None"
  using assms
  by (auto simp: handleSubmit_def signUpTry_def service_defs Let_def render_def orElse_def
        split: option.splits)

theorem signUp_success_sequence_witness:
  "\<not> isLogin annSignUp \<and> password annSignUp = confirmPassword annSignUp \<and>
   createUserResult (allOk newAccount) = Inr newAccount \<and>
   updateProfileFault (allOk newAccount) = None \<and> setDocFault (allOk newAccount) = None \<and>
   sendEmailVerificationFault (allOk newAccount) = None \<and>
   signOutFault (allOk newAccount) = None \<and>
   calls (snd (handleSubmit (allOk newAccount) annSignUp noDocuments)) =
     [CreateUserWithEmailAndPassword ''a@x.com'' ''secret1'', UpdateProfile ''u1'' ''Ann'',
      SetDoc ''u1''
        [(''name'', ''Ann''), (''email'', ''a@x.com''), (''photoFileName'', []),
         (''photoBase64'', []), (''createdAt'', ''2024-05-01T10:00:00.000Z'')],
      SendEmailVerification ''u1'', SignOut] \<and>
   users (snd (handleSubmit (allOk newAccount) annSignUp noDocuments)) ''u1'' =
     Some (map_of
        [(''name'', ''Ann''), (''email'', ''a@x.com''), (''photoFileName'', []),
         (''photoBase64'', []), (''createdAt'', ''2024-05-01T10:00:00.000Z'')]) \<and>
   verificationPending (fst (handleSubmit (allOk newAccount) annSignUp noDocuments)) \<and>
   currentUser (snd (handleSubmit (allOk newAccount) annSignUp noDocuments)) = None"
proof -
  have h1: "\<not> isLogin annSignUp" and h2: "password annSignUp = confirmPassword annSignUp"
    by (simp_all add: annSignUp_def initialAuth_def)
  have h3: "createUserResult (allOk newAccount) = Inr newAccount"
    and h4: "updateProfileFault (allOk newAccount) = None"
    and h5: "setDocFault (allOk newAccount) = None"
    and h6: "sendEmailVerificationFault (allOk newAccount) = None"
    and h7: "signOutFault (allOk newAccount) = None"
    by (simp_all add: allOk_def)
  have run: "uid newAccount = ''u1''" "name annSignUp = ''Ann''" "email annSignUp = ''a@x.com''"
    "password annSignUp = ''secret1''" "photoFileName annSignUp = []"
    "photoPreview annSignUp = None" "now (allOk newAccount) = ''2024-05-01T10:00:00.000Z''"
    "calls noDocuments = []"
    by (simp_all add: example_defs)
  show ?thesis
    using h1 h2 h3 h4 h5 h6 h7
      signUp_success_sequence [OF h1 h2 h3 h4 h5 h6 h7, of noDocuments]
    by (simp add: run)
qed


section \<open>Sign-in\<close>

text \<open>
  When the \<^verbatim>\<open>try\<close> of the sign-in branch is left through a rejection, no cell of
  the form has been written inside it; when it runs to its end, at most the
  verification-pending flag has been set.
\<close>

lemma signInTry_rejected_state:
  "signInTry e s b = (Some err, s1, b1) \<Longrightarrow> s1 = s"
  by (auto simp: signInTry_def split: prod.splits sum.splits option.splits if_splits)

lemma signInTry_completed_state:
  "signInTry e s b = (None, s1, b1) \<Longrightarrow> s1 = s \<or> s1 = s\<lparr>verificationPending := True\<rparr>"
  by (auto simp: signInTry_def split: prod.splits sum.splits option.splits if_splits)

lemma signInCatch_nonempty: "signInCatch err \<noteq> []"
  by (simp add: signInCatch_def)

text \<open>
  The \<^verbatim>\<open>try\<close> of the sign-in branch is left through a rejection with error
  \<open>err\<close> exactly when the sign-in call is rejected with it, or the sign-in is accepted
  and the read of the profile document is rejected with it, or the write of a missing
  document is, or the sign-out of an unverified account is. The rejection of the
  verification resend never leaves the \<^verbatim>\<open>try\<close>.
\<close>

lemma signInTry_rejected_iff:
  "fst (signInTry e s b) = Some err \<longleftrightarrow>
     (signInResult e = Inl err \<or>
      (\<exists>u. signInResult e = Inr u \<and>
         (getDocFault e = Some err \<or>
          getDocFault e = None \<and> users b (uid u) = None \<and> setDocFault e = Some err \<or>
          getDocFault e = None \<and> (users b (uid u) = None \<longrightarrow> setDocFault e = None) \<and>
            \<not> emailVerified u \<and> signOutFault e = Some err)))"
  by (auto simp: signInTry_def service_defs split: sum.splits option.splits)

lemma handleSubmit_signIn_rejected:
  assumes "isLogin s" and "fst (signInTry e (s\<lparr>error := [], loading := True\<rparr>) b) = Some err"
  shows "error (fst (handleSubmit e s b)) = signInCatch err"
proof -
  obtain s1 b1 where "signInTry e (s\<lparr>error := [], loading := True\<rparr>) b = (Some err, s1, b1)"
    using assms(2) by (cases "signInTry e (s\<lparr>error := [], loading := True\<rparr>) b") auto
  with assms(1) show ?thesis
    by (simp add: handleSubmit_def)
qed

text \<open>
  Claim C8. When the sign-in call is rejected, it is the only call issued. Whichever
  awaited call of the sign-in branch is rejected (the sign-in itself, the read or the
  write of the profile document, the sign-out), the message follows the code of that
  error: \<^verbatim>\<open>Password or Email Incorrect\<close> for an invalid credential, an unknown
  account or a wrong password; the "Too many attempts" text for a rate limit; the
  connectivity text for every other code. After every run of the sign-in branch the
  loading flag is false. Every rejection inside the \<^verbatim>\<open>try\<close> ends with an error
  text displayed; an error text is displayed only after one of these rejections; and
  whenever one is displayed, nothing but the error text and the loading flag differs from
  the form as submitted: the screen is the same.
\<close>

theorem signIn_failure_messages:
  assumes "isLogin s"
  shows
  "(\<forall>err. signInResult e = Inl err \<longrightarrow>
      calls (snd (handleSubmit e s b)) =
        calls b @ [SignInWithEmailAndPassword (email s) (password s)]) \<and>
   (\<forall>err.
      (signInResult e = Inl err \<or>
      (\<exists>u. signInResult e = Inr u \<and>
         (getDocFault e = Some err \<or>
          getDocFault e = None \<and> users b (uid u) = None \<and> setDocFault e = Some err \<or>
          getDocFault e = None \<and> (users b (uid u) = None \<longrightarrow> setDocFault e = None) \<and>
            \<not> emailVerified u \<and> signOutFault e = Some err))) \<longrightarrow>
      (code err = ''auth/invalid-credential'' \<or> code err = ''auth/user-not-found''
         \<or> code err = ''auth/wrong-password''
       \<longrightarrow> error (fst (handleSubmit e s b)) = ''Password or Email Incorrect'') \<and>
      (code err = ''auth/too-many-requests''
       \<longrightarrow> error (fst (handleSubmit e s b)) = ''Too many attempts. Please try again later.'') \<and>
      (code err \<noteq> ''auth/invalid-credential'' \<and> code err \<noteq> ''auth/user-not-found''
         \<and> code err \<noteq> ''auth/wrong-password'' \<and> code err \<noteq> ''auth/too-many-requests''
       \<longrightarrow> error (fst (handleSubmit e s b))
             = ''Failed to sign in. Please check your connection.'')) \<and>
   \<not> loading (fst (handleSubmit e s b)) \<and>
   (fst (signInTry e (s\<lparr>error := [], loading := True\<rparr>) b) \<noteq> None \<longrightarrow>
      error (fst (handleSubmit e s b)) \<noteq> []) \<and>
   (error (fst (handleSubmit e s b)) \<noteq> [] \<longrightarrow>
      (\<exists>err. signInResult e = Inl err \<or>
      (\<exists>u. signInResult e = Inr u \<and>
         (getDocFault e = Some err \<or>
          getDocFault e = None \<and> users b (uid u) = None \<and> setDocFault e = Some err \<or>
          getDocFault e = None \<and> (users b (uid u) = None \<longrightarrow> setDocFault e = None) \<and>
            \<not> emailVerified u \<and> signOutFault e = Some err))) \<and>
      fst (handleSubmit e s b) = s\<lparr>error := error (fst (handleSubmit e s b)), loading := False\<rparr> \<and>
      render (fst (handleSubmit e s b)) = render s)"
proof -
  let ?s = "s\<lparr>error := [], loading := True\<rparr>"
  obtain r s1 b1 where t: "signInTry e ?s b = (r, s1, b1)"
    by (cases "signInTry e ?s b") auto
  have only: "\<forall>err. signInResult e = Inl err \<longrightarrow>
      calls (snd (handleSubmit e s b)) =
        calls b @ [SignInWithEmailAndPassword (email s) (password s)]"
    using assms
    by (auto simp: handleSubmit_def signInTry_def signInWithEmailAndPassword_def issue_def)
  have codes: "\<forall>err.
      (signInResult e = Inl err \<or>
      (\<exists>u. signInResult e = Inr u \<and>
         (getDocFault e = Some err \<or>
          getDocFault e = None \<and> users b (uid u) = None \<and> setDocFault e = Some err \<or>
          getDocFault e = None \<and> (users b (uid u) = None \<longrightarrow> setDocFault e = None) \<and>
            \<not> emailVerified u \<and> signOutFault e = Some err))) \<longrightarrow>
      (code err = ''auth/invalid-credential'' \<or> code err = ''auth/user-not-found''
         \<or> code err = ''auth/wrong-password''
       \<longrightarrow> error (fst (handleSubmit e s b)) = ''Password or Email Incorrect'') \<and>
      (code err = ''auth/too-many-requests''
       \<longrightarrow> error (fst (handleSubmit e s b)) = ''Too many attempts. Please try again later.'') \<and>
      (code err \<noteq> ''auth/invalid-credential'' \<and> code err \<noteq> ''auth/user-not-found''
         \<and> code err \<noteq> ''auth/wrong-password'' \<and> code err \<noteq> ''auth/too-many-requests''
       \<longrightarrow> error (fst (handleSubmit e s b))
             = ''Failed to sign in. Please check your connection.'')"
  proof (intro allI impI)
    fix err
    assume "signInResult e = Inl err \<or>
      (\<exists>u. signInResult e = Inr u \<and>
         (getDocFault e = Some err \<or>
          getDocFault e = None \<and> users b (uid u) = None \<and> setDocFault e = Some err \<or>
          getDocFault e = None \<and> (users b (uid u) = None \<longrightarrow> setDocFault e = None) \<and>
            \<not> emailVerified u \<and> signOutFault e = Some err))"
    then have "fst (signInTry e ?s b) = Some err"
      by (simp only: signInTry_rejected_iff)
    with assms have "error (fst (handleSubmit e s b)) = signInCatch err"
      by (rule handleSubmit_signIn_rejected)
    then show "(code err = ''auth/invalid-credential'' \<or> code err = ''auth/user-not-found''
         \<or> code err = ''auth/wrong-password''
       \<longrightarrow> error (fst (handleSubmit e s b)) = ''Password or Email Incorrect'') \<and>
      (code err = ''auth/too-many-requests''
       \<longrightarrow> error (fst (handleSubmit e s b)) = ''Too many attempts. Please try again later.'') \<and>
      (code err \<noteq> ''auth/invalid-credential'' \<and> code err \<noteq> ''auth/user-not-found''
         \<and> code err \<noteq> ''auth/wrong-password'' \<and> code err \<noteq> ''auth/too-many-requests''
       \<longrightarrow> error (fst (handleSubmit e s b))
             = ''Failed to sign in. Please check your connection.'')"
      by (simp add: signInCatch_def)
  qed
  have flag: "\<not> loading (fst (handleSubmit e s b))"
    using assms t by (cases r) (simp_all add: handleSubmit_def)
  have shown: "fst (signInTry e ?s b) \<noteq> None \<longrightarrow> error (fst (handleSubmit e s b)) \<noteq> []"
    using assms t by (cases r) (simp_all add: handleSubmit_def signInCatch_nonempty)
  have cause: "error (fst (handleSubmit e s b)) \<noteq> [] \<longrightarrow>
      (\<exists>err. signInResult e = Inl err \<or>
      (\<exists>u. signInResult e = Inr u \<and>
         (getDocFault e = Some err \<or>
          getDocFault e = None \<and> users b (uid u) = None \<and> setDocFault e = Some err \<or>
          getDocFault e = None \<and> (users b (uid u) = None \<longrightarrow> setDocFault e = None) \<and>
            \<not> emailVerified u \<and> signOutFault e = Some err)))"
  proof (cases r)
    case None
    with t signInTry_completed_state [of e ?s b s1 b1] assms show ?thesis
      by (auto simp: handleSubmit_def)
  next
    case (Some err)
    with t have "fst (signInTry e ?s b) = Some err"
      by simp
    then have rejected: "signInResult e = Inl err \<or>
      (\<exists>u. signInResult e = Inr u \<and>
         (getDocFault e = Some err \<or>
          getDocFault e = None \<and> users b (uid u) = None \<and> setDocFault e = Some err \<or>
          getDocFault e = None \<and> (users b (uid u) = None \<longrightarrow> setDocFault e = None) \<and>
            \<not> emailVerified u \<and> signOutFault e = Some err))"
      by (simp only: signInTry_rejected_iff)
    then have "\<exists>err. signInResult e = Inl err \<or>
      (\<exists>u. signInResult e = Inr u \<and>
         (getDocFault e = Some err \<or>
          getDocFault e = None \<and> users b (uid u) = None \<and> setDocFault e = Some err \<or>
          getDocFault e = None \<and> (users b (uid u) = None \<longrightarrow> setDocFault e = None) \<and>
            \<not> emailVerified u \<and> signOutFault e = Some err))"
      by (rule exI)
    then show ?thesis
      by simp
  qed
  have same: "error (fst (handleSubmit e s b)) \<noteq> [] \<longrightarrow>
      fst (handleSubmit e s b) = s\<lparr>error := error (fst (handleSubmit e s b)), loading := False\<rparr>"
  proof (cases r)
    case None
    with t signInTry_completed_state [of e ?s b s1 b1] assms show ?thesis
      by (auto simp: handleSubmit_def)
  next
    case (Some err)
    with t signInTry_rejected_state [of e ?s b err s1 b1] assms show ?thesis
      by (auto simp: handleSubmit_def)
  qed
  have screen: "error (fst (handleSubmit e s b)) \<noteq> [] \<longrightarrow>
      render (fst (handleSubmit e s b)) = render s"
  proof
    assume "error (fst (handleSubmit e s b)) \<noteq> []"
    with same have
      "fst (handleSubmit e s b) = s\<lparr>error := error (fst (handleSubmit e s b)), loading := False\<rparr>"
      by blast
    then have "render (fst (handleSubmit e s b))
        = render (s\<lparr>error := error (fst (handleSubmit e s b)), loading := False\<rparr>)"
      by simp
    then show "render (fst (handleSubmit e s b)) = render s"
      by (simp add: render_def)
  qed
  from only codes flag shown cause same screen show ?thesis
    by blast
qed

theorem signIn_failure_messages_witness:
  "isLogin annSignIn \<and>
   signInResult ((allOk ann)\<lparr>signInResult := Inl (FirebaseError ''auth/wrong-password'')\<rparr>)
     = Inl (FirebaseError ''auth/wrong-password'') \<and>
   calls (snd (handleSubmit
      ((allOk ann)\<lparr>signInResult := Inl (FirebaseError ''auth/wrong-password'')\<rparr>)
      annSignIn noDocuments)) = [SignInWithEmailAndPassword ''a@x.com'' ''secret1''] \<and>
   fst (handleSubmit
      ((allOk ann)\<lparr>signInResult := Inl (FirebaseError ''auth/wrong-password'')\<rparr>)
      annSignIn noDocuments) = annSignIn\<lparr>error := ''Password or Email Incorrect''\<rparr> \<and>
   render (fst (handleSubmit
      ((allOk ann)\<lparr>signInResult := Inl (FirebaseError ''auth/wrong-password'')\<rparr>)
      annSignIn noDocuments)) = SignInForm \<and>
   signInResult ((allOk ann)\<lparr>setDocFault := Some (FirebaseError ''permission-denied'')\<rparr>)
     = Inr ann \<and>
   getDocFault ((allOk ann)\<lparr>setDocFault := Some (FirebaseError ''permission-denied'')\<rparr>)
     = None \<and>
   users noDocuments (uid ann) = None \<and>
   setDocFault ((allOk ann)\<lparr>setDocFault := Some (FirebaseError ''permission-denied'')\<rparr>)
     = Some (FirebaseError ''permission-denied'') \<and>
   error (fst (handleSubmit
      ((allOk ann)\<lparr>setDocFault := Some (FirebaseError ''permission-denied'')\<rparr>)
      annSignIn noDocuments)) = ''Failed to sign in. Please check your connection.''"
proof -
  let ?wrong = "(allOk ann)\<lparr>signInResult := Inl (FirebaseError ''auth/wrong-password'')\<rparr>"
  let ?denied = "(allOk ann)\<lparr>setDocFault := Some (FirebaseError ''permission-denied'')\<rparr>"
  have h: "isLogin annSignIn"
    by (simp add: annSignIn_def initialAuth_def)
  have run: "email annSignIn = ''a@x.com''" "password annSignIn = ''secret1''"
    "calls noDocuments = []" "render annSignIn = SignInForm"
    "annSignIn\<lparr>error := ''Password or Email Incorrect'', loading := False\<rparr>
       = annSignIn\<lparr>error := ''Password or Email Incorrect''\<rparr>"
    by (simp_all add: example_defs render_def)
  have w1: "signInResult ?wrong = Inl (FirebaseError ''auth/wrong-password'')"
    by simp
  have d1: "signInResult ?denied = Inr ann" and d2: "getDocFault ?denied = None"
    and d3: "users noDocuments (uid ann) = None"
    and d4: "setDocFault ?denied = Some (FirebaseError ''permission-denied'')"
    by (simp_all add: allOk_def noDocuments_def)
  note wrong = signIn_failure_messages [OF h, of ?wrong noDocuments]
  note denied = signIn_failure_messages [OF h, of ?denied noDocuments]
  have first: "calls (snd (handleSubmit ?wrong annSignIn noDocuments))
       = [SignInWithEmailAndPassword ''a@x.com'' ''secret1'']"
    using wrong w1 by (simp add: run)
  have text1: "error (fst (handleSubmit ?wrong annSignIn noDocuments))
       = ''Password or Email Incorrect''"
  proof -
    from wrong have "\<forall>err. signInResult ?wrong = Inl err \<longrightarrow>
        (code err = ''auth/wrong-password'' \<longrightarrow>
           error (fst (handleSubmit ?wrong annSignIn noDocuments)) = ''Password or Email Incorrect'')"
      by blast
    with w1 show ?thesis by simp
  qed
  have state1: "fst (handleSubmit ?wrong annSignIn noDocuments)
       = annSignIn\<lparr>error := ''Password or Email Incorrect''\<rparr>"
  proof -
    from text1 have "error (fst (handleSubmit ?wrong annSignIn noDocuments)) \<noteq> []"
      by simp
    with wrong have "fst (handleSubmit ?wrong annSignIn noDocuments)
        = annSignIn\<lparr>error := error (fst (handleSubmit ?wrong annSignIn noDocuments)),
                    loading := False\<rparr>"
      by blast
    with text1 show ?thesis by (simp add: run)
  qed
  have screen1: "render (fst (handleSubmit ?wrong annSignIn noDocuments)) = SignInForm"
  proof -
    have "render (annSignIn\<lparr>error := ''Password or Email Incorrect''\<rparr>) = SignInForm"
      by (simp add: render_def example_defs)
    with state1 show ?thesis by simp
  qed
  have text2: "error (fst (handleSubmit ?denied annSignIn noDocuments))
       = ''Failed to sign in. Please check your connection.''"
  proof -
    let ?err = "FirebaseError ''permission-denied''"
    from denied have "(\<exists>u. signInResult ?denied = Inr u \<and> getDocFault ?denied = None \<and>
          users noDocuments (uid u) = None \<and> setDocFault ?denied = Some ?err) \<longrightarrow>
        (code ?err \<noteq> ''auth/invalid-credential'' \<and> code ?err \<noteq> ''auth/user-not-found''
           \<and> code ?err \<noteq> ''auth/wrong-password'' \<and> code ?err \<noteq> ''auth/too-many-requests''
         \<longrightarrow> error (fst (handleSubmit ?denied annSignIn noDocuments))
               = ''Failed to sign in. Please check your connection.'')"
      by blast
    moreover have "\<exists>u. signInResult ?denied = Inr u \<and> getDocFault ?denied = None \<and>
          users noDocuments (uid u) = None \<and> setDocFault ?denied = Some ?err"
      using d1 d2 d3 d4 by blast
    ultimately show ?thesis by simp
  qed
  from h w1 first state1 screen1 d1 d2 d3 d4 text2 show ?thesis
    by blast
qed

text \<open>
  Claim C1, as amended. When the sign-in call succeeds and the read of the profile document
  succeeds and finds none, the controller writes, as its third call and before the
  verification check, a document keyed by the account id whose \<^verbatim>\<open>name\<close> is the
  account's display name, or \<^verbatim>\<open>User\<close> when the account has none or an empty one,
  whose \<^verbatim>\<open>email\<close> is the account's email, whose \<^verbatim>\<open>photoFileName\<close> is empty,
  which carries no photo data, and whose \<^verbatim>\<open>createdAt\<close> is the current time. When
  the write is accepted, that document is what the store holds afterwards. Only then does
  the flow go on to the verification resend and the sign-out of an unverified account.
\<close>

theorem signIn_creates_missing_profile:
  assumes "isLogin s" and "signInResult e = Inr u" and "getDocFault e = None"
    and "users b (uid u) = None"
  shows
  "\<exists>fs. calls (snd (handleSubmit e s b)) =
       calls b @ [SignInWithEmailAndPassword (email s) (password s), GetDoc (uid u),
                  SetDoc (uid u) fs]
         @ (if setDocFault e = None \<and> \<not> emailVerified u
            then [SendEmailVerification (uid u), SignOut] else []) \<and>
     map_of fs ''name'' =
       Some (case displayName u of None \<Rightarrow> ''User''
             | Some n \<Rightarrow> if n = [] then ''User'' else n) \<and>
     map_of fs ''email'' = Some (userEmail u) \<and>
     map_of fs ''photoFileName'' = Some [] \<and>
     orElse (map_of fs ''photoBase64'') [] = [] \<and>
     map_of fs ''createdAt'' = Some (now e) \<and>
     (setDocFault e = None \<longrightarrow> users (snd (handleSubmit e s b)) (uid u) = Some (map_of fs))"
  using assms
  by (auto simp: handleSubmit_def signInTry_def service_defs orElse_def Let_def
        split: option.splits)

theorem signIn_creates_missing_profile_witness:
  "isLogin bobSignIn \<and> signInResult (allOk bob) = Inr bob \<and> getDocFault (allOk bob) = None \<and>
   users noDocuments (uid bob) = None \<and>
   (\<exists>fs. calls (snd (handleSubmit (allOk bob) bobSignIn noDocuments)) =
       [SignInWithEmailAndPassword ''bob@x.com'' ''hunter22'', GetDoc ''u2'', SetDoc ''u2'' fs,
        SendEmailVerification ''u2'', SignOut] \<and>
     map_of fs ''name'' = Some ''User'' \<and>
     map_of fs ''email'' = Some ''bob@x.com'' \<and>
     map_of fs ''photoFileName'' = Some [] \<and>
     orElse (map_of fs ''photoBase64'') [] = [] \<and>
     map_of fs ''createdAt'' = Some ''2024-05-01T10:00:00.000Z'' \<and>
     users (snd (handleSubmit (allOk bob) bobSignIn noDocuments)) ''u2'' = Some (map_of fs))"
proof -
  have h1: "isLogin bobSignIn"
    by (simp add: bobSignIn_def initialAuth_def)
  have h2: "signInResult (allOk bob) = Inr bob" and h3: "getDocFault (allOk bob) = None"
    by (simp_all add: allOk_def)
  have h4: "users noDocuments (uid bob) = None"
    by (simp add: noDocuments_def)
  have run: "uid bob = ''u2''" "userEmail bob = ''bob@x.com''" "displayName bob = None"
    "\<not> emailVerified bob" "email bobSignIn = ''bob@x.com''" "password bobSignIn = ''hunter22''"
    "setDocFault (allOk bob) = None" "now (allOk bob) = ''2024-05-01T10:00:00.000Z''"
    "calls noDocuments = []"
    by (simp_all add: example_defs)
  show ?thesis
    using h1 h2 h3 h4 signIn_creates_missing_profile [OF h1 h2 h3 h4]
    by (simp add: run)
qed

text \<open>
  Claim C1 as stated fails on the name. Ann's account carries the display name
  \<^verbatim>\<open>Ann\<close> (set when she signed up) and has no profile document, as after a sign-up
  whose document write was rejected or a delete-account whose second call was rejected.
  Her sign-in goes through and the document created for her is named \<^verbatim>\<open>Ann\<close>,
  not \<^verbatim>\<open>User\<close>.
\<close>

theorem signIn_profile_name_not_always_User:
  "isLogin annSignIn \<and> signInResult (allOk ann) = Inr ann \<and>
   users noDocuments (uid ann) = None \<and>
   docField (snd (handleSubmit (allOk ann) annSignIn noDocuments)) (uid ann) ''name''
     = Some ''Ann'' \<and>
   docField (snd (handleSubmit (allOk ann) annSignIn noDocuments)) (uid ann) ''name''
     \<noteq> Some ''User''"
  by (simp add: example_defs docField_def handleSubmit_def signInTry_def service_defs
        orElse_def)

text \<open>
  The payload of that write is the object literal of the source: four fields, and
  \<^verbatim>\<open>photoBase64\<close> is not among them, so a later read finds that field missing.
\<close>

lemma signIn_profile_payload:
  assumes "isLogin s" and "signInResult e = Inr u" and "getDocFault e = None"
    and "users b (uid u) = None" and "setDocFault e = None"
  shows "users (snd (handleSubmit e s b)) (uid u) =
           Some (map_of [(''name'', orElse (displayName u) ''User''), (''email'', userEmail u),
                         (''photoFileName'', []), (''createdAt'', now e)])"
    and "docField (snd (handleSubmit e s b)) (uid u) ''photoBase64'' = None"
  using assms
  by (auto simp: handleSubmit_def signInTry_def service_defs docField_def Let_def
        split: option.splits)





section \<open>Forgot password\<close>

text \<open>
  Claim C9. With an empty email field the submission is local: the backend is returned
  unchanged (no call is issued) and the error text is
  \<^verbatim>\<open>Please enter your email address.\<close> With a non-empty email exactly one call is
  issued, the request for a reset link to that address; when it is accepted, the
  reset-success flag is set with no error text, which turns the forgot-password form into
  the confirmation screen.
\<close>

theorem handleResetPassword_empty_or_sent:
  "(email s = [] \<longrightarrow>
      handleResetPassword e s b =
        (s\<lparr>error := ''Please enter your email address.'', loading := False\<rparr>, b)) \<and>
   (email s \<noteq> [] \<longrightarrow>
      calls (snd (handleResetPassword e s b)) = calls b @ [SendPasswordResetEmail (email s)]) \<and>
   (email s \<noteq> [] \<and> sendPasswordResetEmailFault e = None \<longrightarrow>
      fst (handleResetPassword e s b) = s\<lparr>resetSuccess := True, error := [], loading := False\<rparr> \<and>
      (render s = ForgotPasswordForm \<longrightarrow>
         render (fst (handleResetPassword e s b)) = ResetLinkSentScreen))"
  by (auto simp: handleResetPassword_def sendPasswordResetEmail_def issue_def render_def Let_def
        split: if_splits option.splits)

theorem handleResetPassword_empty_or_sent_witness:
  "email (annForgot\<lparr>email := []\<rparr>) = [] \<and>
   handleResetPassword (allOk ann) (annForgot\<lparr>email := []\<rparr>) noDocuments =
     (annForgot\<lparr>email := [], error := ''Please enter your email address.'',
                loading := False\<rparr>, noDocuments) \<and>
   email annForgot \<noteq> [] \<and> sendPasswordResetEmailFault (allOk ann) = None \<and>
   render annForgot = ForgotPasswordForm \<and>
   calls (snd (handleResetPassword (allOk ann) annForgot noDocuments))
     = [SendPasswordResetEmail ''a@x.com''] \<and>
   resetSuccess (fst (handleResetPassword (allOk ann) annForgot noDocuments)) \<and>
   render (fst (handleResetPassword (allOk ann) annForgot noDocuments)) = ResetLinkSentScreen"
proof -
  have h1: "email (annForgot\<lparr>email := []\<rparr>) = []"
    by simp
  have h2: "email annForgot \<noteq> []" and h2': "email annForgot = ''a@x.com''"
    and h3: "sendPasswordResetEmailFault (allOk ann) = None"
    and h4: "render annForgot = ForgotPasswordForm"
    and h5: "calls noDocuments = []"
    by (simp_all add: example_defs render_def)
  have empty: "handleResetPassword (allOk ann) (annForgot\<lparr>email := []\<rparr>) noDocuments =
     (annForgot\<lparr>email := [], error := ''Please enter your email address.'',
                loading := False\<rparr>, noDocuments)"
    using handleResetPassword_empty_or_sent [of "annForgot\<lparr>email := []\<rparr>" "allOk ann" noDocuments]
      h1 by blast
  have sent: "calls (snd (handleResetPassword (allOk ann) annForgot noDocuments))
        = calls noDocuments @ [SendPasswordResetEmail (email annForgot)] \<and>
      fst (handleResetPassword (allOk ann) annForgot noDocuments)
        = annForgot\<lparr>resetSuccess := True, error := [], loading := False\<rparr> \<and>
      render (fst (handleResetPassword (allOk ann) annForgot noDocuments)) = ResetLinkSentScreen"
    using handleResetPassword_empty_or_sent [of annForgot "allOk ann" noDocuments] h2 h3 h4
    by blast
  from sent have flag: "resetSuccess (fst (handleResetPassword (allOk ann) annForgot noDocuments))"
    by simp
  from sent have issued: "calls (snd (handleResetPassword (allOk ann) annForgot noDocuments))
        = [SendPasswordResetEmail ''a@x.com'']"
    by (simp add: h2' h5)
  from sent have shown:
    "render (fst (handleResetPassword (allOk ann) annForgot noDocuments)) = ResetLinkSentScreen"
    by blast
  from h1 empty h2 h3 h4 issued flag shown show ?thesis
    by blast
qed


section \<open>Profile view\<close>

text \<open>
  Claim C10. Loading the profile is read-only. The store and the session are returned as
  they were; the calls issued are none without a session and one read of the user's
  document with one; message, timers and the updating flag are never touched, so no error
  is surfaced even when the read is rejected. When the user's document does not exist,
  nothing is created, and the displayed profile data and the editable name stay as they
  were: only the loading flag is cleared.
\<close>

theorem fetchProfile_read_only:
  "users (snd (fetchProfile e p b)) = users b \<and>
   currentUser (snd (fetchProfile e p b)) = currentUser b \<and>
   calls (snd (fetchProfile e p b)) =
     calls b @ (case currentUser b of None \<Rightarrow> [] | Some u \<Rightarrow> [GetDoc (uid u)]) \<and>
   msg (fst (fetchProfile e p b)) = msg p \<and>
   timers (fst (fetchProfile e p b)) = timers p \<and>
   updating (fst (fetchProfile e p b)) = updating p \<and>
   (\<forall>u. currentUser b = Some u \<and> users b (uid u) = None \<longrightarrow>
      fst (fetchProfile e p b) = p\<lparr>loadingProfile := False\<rparr> \<and>
      profileData (fst (fetchProfile e p b)) = profileData p \<and>
      editName (fst (fetchProfile e p b)) = editName p)"
proof (cases "currentUser b")
  case None
  then show ?thesis
    by (simp add: fetchProfile_def)
next
  case (Some u)
  note session = this
  show ?thesis
  proof (cases "getDocFault e")
    case (Some err)
    with session show ?thesis
      by (simp add: fetchProfile_def getDoc_def issue_def)
  next
    case None
    note accepted = this
    show ?thesis
    proof (cases "users b (uid u)")
      case None
      with session accepted show ?thesis
        by (simp add: fetchProfile_def getDoc_def issue_def)
    next
      case (Some d)
      with session accepted show ?thesis
        by (simp add: fetchProfile_def getDoc_def issue_def)
    qed
  qed
qed

theorem fetchProfile_read_only_witness:
  "currentUser (noDocuments\<lparr>currentUser := Some ann\<rparr>) = Some ann \<and>
   users (noDocuments\<lparr>currentUser := Some ann\<rparr>) (uid ann) = None \<and>
   users (snd (fetchProfile (allOk ann) editingAnne (noDocuments\<lparr>currentUser := Some ann\<rparr>)))
     = Map.empty \<and>
   calls (snd (fetchProfile (allOk ann) editingAnne (noDocuments\<lparr>currentUser := Some ann\<rparr>)))
     = [GetDoc ''u1''] \<and>
   msg (fst (fetchProfile (allOk ann) editingAnne (noDocuments\<lparr>currentUser := Some ann\<rparr>)))
     = [] \<and>
   profileData (fst (fetchProfile (allOk ann) editingAnne (noDocuments\<lparr>currentUser := Some ann\<rparr>)))
     = Some (map_of annDocument) \<and>
   editName (fst (fetchProfile (allOk ann) editingAnne (noDocuments\<lparr>currentUser := Some ann\<rparr>)))
     = ''Anne''"
proof -
  let ?b = "noDocuments\<lparr>currentUser := Some ann\<rparr>"
  have h1: "currentUser ?b = Some ann" and h2: "users ?b (uid ann) = None"
    and h3: "users ?b = Map.empty" and h4: "calls ?b = []"
    by (simp_all add: noDocuments_def)
  have h5: "uid ann = ''u1''" "msg editingAnne = []" "editName editingAnne = ''Anne''"
    "profileData editingAnne = Some (map_of annDocument)"
    by (simp_all add: ann_def editingAnne_def initialProfile_def)
  show ?thesis
    using fetchProfile_read_only [of "allOk ann" editingAnne ?b] h1 h2
    by (simp add: h3 h4 h5)
qed

text \<open>
  Claim C5, as amended. A save by a signed-in user first issues one partial update of the
  user's document whose payload is the single field \<^verbatim>\<open>name\<close> with the edited name.
  Whatever the store answers, every field other than \<^verbatim>\<open>name\<close> of every document
  reads afterwards as it did before, and no other user's document changes. When the write
  is accepted on an existing document, the stored document is the previous one with the
  name replaced, so reading \<^verbatim>\<open>name\<close> gives the new name; the view then issues
  the re-fetch as its second and last call, and an accepted re-fetch displays that
  document. When the write is rejected, or there is no document to update, the store is
  left as it was and the update is the only call: the view does not re-fetch.
\<close>

theorem handleUpdate_writes_name_only:
  assumes "currentUser b = Some u"
  shows
  "(\<exists>rest. calls (snd (handleUpdate l e p b)) =
       calls b @ UpdateDoc (uid u) [(''name'', editName p)] # rest) \<and>
   (\<forall>k f. f \<noteq> ''name'' \<longrightarrow>
      docField (snd (handleUpdate l e p b)) k f = docField b k f) \<and>
   (\<forall>k. k \<noteq> uid u \<longrightarrow> users (snd (handleUpdate l e p b)) k = users b k) \<and>
   (\<forall>d. updateDocFault e = None \<and> users b (uid u) = Some d \<longrightarrow>
      users (snd (handleUpdate l e p b)) = (users b)(uid u \<mapsto> d(''name'' \<mapsto> editName p)) \<and>
      docField (snd (handleUpdate l e p b)) (uid u) ''name'' = Some (editName p) \<and>
      (\<forall>f. f \<noteq> ''name'' \<longrightarrow> docField (snd (handleUpdate l e p b)) (uid u) f = d f) \<and>
      calls (snd (handleUpdate l e p b)) =
        calls b @ [UpdateDoc (uid u) [(''name'', editName p)], GetDoc (uid u)] \<and>
      (getDocFault e = None \<longrightarrow>
         profileData (fst (handleUpdate l e p b)) = Some (d(''name'' \<mapsto> editName p)))) \<and>
   (updateDocFault e \<noteq> None \<or> users b (uid u) = None \<longrightarrow>
      users (snd (handleUpdate l e p b)) = users b \<and>
      calls (snd (handleUpdate l e p b)) =
        calls b @ [UpdateDoc (uid u) [(''name'', editName p)]] \<and>
      profileData (fst (handleUpdate l e p b)) = profileData p \<and>
      editName (fst (handleUpdate l e p b)) = editName p)"
  using assms
  by (auto simp: handleUpdate_def updateDoc_def fetchProfile_def getDoc_def issue_def Let_def
        docField_def split: option.splits)

theorem handleUpdate_writes_name_only_witness:
  "currentUser annSignedIn = Some ann \<and> updateDocFault (allOk ann) = None \<and>
   users annSignedIn (uid ann) = Some (map_of annDocument) \<and>
   calls (snd (handleUpdate En (allOk ann) editingAnne annSignedIn))
     = [UpdateDoc ''u1'' [(''name'', ''Anne'')], GetDoc ''u1''] \<and>
   docField (snd (handleUpdate En (allOk ann) editingAnne annSignedIn)) ''u1'' ''name''
     = Some ''Anne'' \<and>
   docField (snd (handleUpdate En (allOk ann) editingAnne annSignedIn)) ''u1'' ''email''
     = Some ''a@x.com'' \<and>
   docField (snd (handleUpdate En (allOk ann) editingAnne annSignedIn)) ''u1'' ''photoFileName''
     = Some [] \<and>
   docField (snd (handleUpdate En (allOk ann) editingAnne annSignedIn)) ''u1'' ''photoBase64''
     = Some [] \<and>
   docField (snd (handleUpdate En (allOk ann) editingAnne annSignedIn)) ''u1'' ''createdAt''
     = Some ''2024-05-01T10:00:00.000Z''"
proof -
  have h1: "currentUser annSignedIn = Some ann"
    and h2: "updateDocFault (allOk ann) = None"
    and h3: "users annSignedIn (uid ann) = Some (map_of annDocument)"
    and h4: "calls annSignedIn = []" "uid ann = ''u1''" "editName editingAnne = ''Anne''"
    by (simp_all add: annSignedIn_def allOk_def ann_def editingAnne_def initialProfile_def)
  have stored: "map_of annDocument ''email'' = Some ''a@x.com''"
    "map_of annDocument ''photoFileName'' = Some []"
    "map_of annDocument ''photoBase64'' = Some []"
    "map_of annDocument ''createdAt'' = Some ''2024-05-01T10:00:00.000Z''"
    by (simp_all add: annDocument_def)
  have "docField (snd (handleUpdate En (allOk ann) editingAnne annSignedIn)) (uid ann) ''name''
          = Some (editName editingAnne) \<and>
        (\<forall>f. f \<noteq> ''name'' \<longrightarrow>
           docField (snd (handleUpdate En (allOk ann) editingAnne annSignedIn)) (uid ann) f
             = map_of annDocument f) \<and>
        calls (snd (handleUpdate En (allOk ann) editingAnne annSignedIn)) =
          calls annSignedIn @ [UpdateDoc (uid ann) [(''name'', editName editingAnne)],
                               GetDoc (uid ann)]"
    using handleUpdate_writes_name_only [OF h1, of En "allOk ann" editingAnne] h2 h3
    by blast
  then show ?thesis
    using h1 h2 h3 by (simp add: h4 stored)
qed

text \<open>
  Claim C5 as stated fails for a save whose write the store rejects. Ann has changed the
  name to \<^verbatim>\<open>Anne\<close> and saves; the update is rejected. It is the only call of the
  run, so the view does not re-fetch, and a read of her document still returns
  \<^verbatim>\<open>Ann\<close>.
\<close>

theorem handleUpdate_rejected_write_no_refetch:
  "currentUser annSignedIn = Some ann \<and> editName editingAnne = ''Anne'' \<and>
   calls (snd (handleUpdate En ((allOk ann)\<lparr>updateDocFault := Some unavailable\<rparr>)
                 editingAnne annSignedIn)) = [UpdateDoc ''u1'' [(''name'', ''Anne'')]] \<and>
   GetDoc ''u1'' \<notin> set (calls (snd (handleUpdate En
       ((allOk ann)\<lparr>updateDocFault := Some unavailable\<rparr>) editingAnne annSignedIn))) \<and>
   docField (snd (handleUpdate En ((allOk ann)\<lparr>updateDocFault := Some unavailable\<rparr>)
                    editingAnne annSignedIn)) ''u1'' ''name'' = Some ''Ann'' \<and>
   docField (snd (handleUpdate En ((allOk ann)\<lparr>updateDocFault := Some unavailable\<rparr>)
                    editingAnne annSignedIn)) ''u1'' ''name'' \<noteq> Some ''Anne''"
  by (simp add: example_defs handleUpdate_def updateDoc_def issue_def docField_def)

text \<open>
  Claim C6, as amended. A save by a signed-in user whose write is accepted shows the
  localized success text and schedules one timer of 3000 ms whose callback clears the
  message. A save whose write is rejected shows the localized failure text and schedules
  nothing: the pending timers are the ones there were before.
\<close>

theorem handleUpdate_message_timer:
  assumes "currentUser b = Some u"
  shows
  "(updateDocFault e = None \<and> users b (uid u) \<noteq> None \<longrightarrow>
      msg (fst (handleUpdate l e p b)) = msgUpdated l \<and>
      msg (fst (handleUpdate l e p b)) \<noteq> [] \<and>
      (l = En \<longrightarrow> msg (fst (handleUpdate l e p b)) = ''Profile updated successfully!'') \<and>
      timers (fst (handleUpdate l e p b)) = timers p @ [(ClearMsg, 3000)] \<and>
      msg (runCallback ClearMsg (fst (handleUpdate l e p b))) = []) \<and>
   (updateDocFault e \<noteq> None \<or> users b (uid u) = None \<longrightarrow>
      msg (fst (handleUpdate l e p b)) = msgUpdateFailed l \<and>
      msg (fst (handleUpdate l e p b)) \<noteq> [] \<and>
      (l = En \<longrightarrow> msg (fst (handleUpdate l e p b)) = ''Update failed.'') \<and>
      timers (fst (handleUpdate l e p b)) = timers p)"
  using assms
  by (auto simp: handleUpdate_def updateDoc_def fetchProfile_def getDoc_def issue_def Let_def
        msgUpdated_def msgUpdateFailed_def runCallback_def split: option.splits)

theorem handleUpdate_message_timer_witness:
  "currentUser annSignedIn = Some ann \<and> updateDocFault (allOk ann) = None \<and>
   users annSignedIn (uid ann) \<noteq> None \<and>
   msg (fst (handleUpdate En (allOk ann) editingAnne annSignedIn))
     = ''Profile updated successfully!'' \<and>
   timers (fst (handleUpdate En (allOk ann) editingAnne annSignedIn)) = [(ClearMsg, 3000)] \<and>
   msg (fireTimer (fst (handleUpdate En (allOk ann) editingAnne annSignedIn))) = []"
proof -
  have h1: "currentUser annSignedIn = Some ann"
    and h2: "updateDocFault (allOk ann) = None"
    and h3: "users annSignedIn (uid ann) \<noteq> None"
    and h4: "timers editingAnne = []"
    by (simp_all add: annSignedIn_def allOk_def ann_def editingAnne_def initialProfile_def)
  have "msg (fst (handleUpdate En (allOk ann) editingAnne annSignedIn))
          = ''Profile updated successfully!'' \<and>
        timers (fst (handleUpdate En (allOk ann) editingAnne annSignedIn))
          = timers editingAnne @ [(ClearMsg, 3000)]"
    using handleUpdate_message_timer [OF h1, of "allOk ann" En editingAnne] h2 h3
    by blast
  then show ?thesis
    using h1 h2 h3 by (simp add: h4 fireTimer_def runCallback_def)
qed

text \<open>
  Claim C6 as stated fails for a rejected write. Ann's save is rejected by the store: the
  failure text is shown, no timer is pending afterwards, and letting the timer queue run
  leaves the text where it is.
\<close>

theorem handleUpdate_failure_message_stays:
  "currentUser annSignedIn = Some ann \<and>
   updateDocFault ((allOk ann)\<lparr>updateDocFault := Some unavailable\<rparr>) \<noteq> None \<and>
   msg (fst (handleUpdate En ((allOk ann)\<lparr>updateDocFault := Some unavailable\<rparr>)
               editingAnne annSignedIn)) = ''Update failed.'' \<and>
   timers (fst (handleUpdate En ((allOk ann)\<lparr>updateDocFault := Some unavailable\<rparr>)
                  editingAnne annSignedIn)) = [] \<and>
   msg (fireTimer (fst (handleUpdate En ((allOk ann)\<lparr>updateDocFault := Some unavailable\<rparr>)
                          editingAnne annSignedIn))) = ''Update failed.''"
  by (simp add: example_defs handleUpdate_def updateDoc_def issue_def msgUpdateFailed_def
        fireTimer_def)

text \<open>
  Claim C2. A confirmed delete-account by a signed-in user always issues the deletion of
  the profile document first; the deletion of the account is the second call and is only
  issued once the first was accepted; nothing follows it. When the account deletion is
  rejected, the document stays absent, the localized error text is shown, the session is
  the one there was, and the updating flag is false again.
\<close>

theorem handleDeleteAccount_document_then_account:
  assumes "currentUser b = Some u" and "confirmAnswer e"
  shows
  "calls (snd (handleDeleteAccount l e p b)) =
     calls b @ DeleteDoc (uid u) # (if deleteDocFault e = None then [DeleteUser (uid u)] else []) \<and>
   (deleteDocFault e = None \<longrightarrow> users (snd (handleDeleteAccount l e p b)) (uid u) = None) \<and>
   (deleteDocFault e = None \<and> deleteUserFault e \<noteq> None \<longrightarrow>
      users (snd (handleDeleteAccount l e p b)) (uid u) = None \<and>
      msg (fst (handleDeleteAccount l e p b)) = msgDeleteFailed l \<and>
      msg (fst (handleDeleteAccount l e p b)) \<noteq> [] \<and>
      (l = En \<longrightarrow> msg (fst (handleDeleteAccount l e p b)) = ''Error: Requires recent login.'') \<and>
      currentUser (snd (handleDeleteAccount l e p b)) = Some u \<and>
      \<not> updating (fst (handleDeleteAccount l e p b))) \<and>
   (deleteDocFault e = None \<and> deleteUserFault e = None \<longrightarrow>
      currentUser (snd (handleDeleteAccount l e p b)) = None)"
proof (cases "deleteDocFault e")
  case (Some err)
  with assms show ?thesis
    by (simp add: handleDeleteAccount_def deleteDoc_def issue_def Let_def)
next
  case None
  note documentDeleted = this
  show ?thesis
  proof (cases "deleteUserFault e")
    case None
    with assms documentDeleted show ?thesis
      by (simp add: handleDeleteAccount_def deleteDoc_def deleteUser_def issue_def Let_def)
  next
    case (Some err)
    with assms documentDeleted show ?thesis
      by (cases l)
         (simp_all add: handleDeleteAccount_def deleteDoc_def deleteUser_def issue_def Let_def
            msgDeleteFailed_def)
  qed
qed

theorem handleDeleteAccount_document_then_account_witness:
  "currentUser annSignedIn = Some ann \<and>
   confirmAnswer ((allOk ann)\<lparr>deleteUserFault :=
       Some (FirebaseError ''auth/requires-recent-login'')\<rparr>) \<and>
   deleteDocFault ((allOk ann)\<lparr>deleteUserFault :=
       Some (FirebaseError ''auth/requires-recent-login'')\<rparr>) = None \<and>
   deleteUserFault ((allOk ann)\<lparr>deleteUserFault :=
       Some (FirebaseError ''auth/requires-recent-login'')\<rparr>) \<noteq> None \<and>
   calls (snd (handleDeleteAccount En ((allOk ann)\<lparr>deleteUserFault :=
       Some (FirebaseError ''auth/requires-recent-login'')\<rparr>) editingAnne annSignedIn))
     = [DeleteDoc ''u1'', DeleteUser ''u1''] \<and>
   users (snd (handleDeleteAccount En ((allOk ann)\<lparr>deleteUserFault :=
       Some (FirebaseError ''auth/requires-recent-login'')\<rparr>) editingAnne annSignedIn)) ''u1''
     = None \<and>
   msg (fst (handleDeleteAccount En ((allOk ann)\<lparr>deleteUserFault :=
       Some (FirebaseError ''auth/requires-recent-login'')\<rparr>) editingAnne annSignedIn))
     = ''Error: Requires recent login.'' \<and>
   currentUser (snd (handleDeleteAccount En ((allOk ann)\<lparr>deleteUserFault :=
       Some (FirebaseError ''auth/requires-recent-login'')\<rparr>) editingAnne annSignedIn))
     = Some ann \<and>
   \<not> updating (fst (handleDeleteAccount En ((allOk ann)\<lparr>deleteUserFault :=
       Some (FirebaseError ''auth/requires-recent-login'')\<rparr>) editingAnne annSignedIn))"
proof -
  let ?e = "(allOk ann)\<lparr>deleteUserFault := Some (FirebaseError ''auth/requires-recent-login'')\<rparr>"
  have h1: "currentUser annSignedIn = Some ann" and h2: "confirmAnswer ?e"
    and h3: "deleteDocFault ?e = None" and h4: "deleteUserFault ?e \<noteq> None"
    and h5: "calls annSignedIn = []" "uid ann = ''u1''"
    by (simp_all add: annSignedIn_def allOk_def ann_def)
  show ?thesis
    using handleDeleteAccount_document_then_account [OF h1 h2, of En editingAnne] h1 h2 h3 h4
    by (simp add: h5 msgDeleteFailed_def)
qed

end
